theory Spec2Isabelle
  imports Complex_Main
begin

section \<open>Game configuration\<close>

text \<open>
  The program is a TypeScript module (\<^verbatim>\<open>src/idle-dungeon-game.tsx\<close>). A value of
  TypeScript's type \<^verbatim>\<open>number\<close> is modelled as a real number: arithmetic is
  exact, and every comparison is the comparison of the reals. Rounding of IEEE doubles,
  infinities and NaN are outside this embedding.
\<close>

type_synonym number = real

text \<open>
  \<^verbatim>\<open>type Dungeon = { id, name, level, requiredStrength, position, color }\<close>.
  The fields \<^verbatim>\<open>id\<close>, \<^verbatim>\<open>name\<close>, \<^verbatim>\<open>level\<close>, \<^verbatim>\<open>position\<close> and \<^verbatim>\<open>color\<close>
  carry the prefix \<open>dungeon_\<close>, since \<open>id\<close> is a constant of HOL and \<open>level\<close> and
  \<open>position\<close> are fields of other objects of the program as well.
\<close>

record Dungeon =
  dungeon_id :: number
  dungeon_name :: string
  dungeon_level :: number
  requiredStrength :: number
  dungeon_position :: "number \<times> number \<times> number"
  dungeon_color :: string

definition DUNGEONS :: "Dungeon list" where
  "DUNGEONS =
    [ \<lparr>dungeon_id = 1, dungeon_name = ''Goblin Cave'', dungeon_level = 1,
        requiredStrength = 10, dungeon_position = (2, 3, 2), dungeon_color = ''#4ade80''\<rparr>,
      \<lparr>dungeon_id = 2, dungeon_name = ''Orc Stronghold'', dungeon_level = 2,
        requiredStrength = 50, dungeon_position = (- 3, 2, 1), dungeon_color = ''#f59e0b''\<rparr>,
      \<lparr>dungeon_id = 3, dungeon_name = ''Dragon Lair'', dungeon_level = 3,
        requiredStrength = 150, dungeon_position = (1, - 3, 3), dungeon_color = ''#ef4444''\<rparr>,
      \<lparr>dungeon_id = 4, dungeon_name = ''Undead Crypt'', dungeon_level = 4,
        requiredStrength = 300, dungeon_position = (- 2, - 2, - 3), dungeon_color = ''#8b5cf6''\<rparr>,
      \<lparr>dungeon_id = 5, dungeon_name = ''Demon Fortress'', dungeon_level = 5,
        requiredStrength = 500, dungeon_position = (3, 1, - 2), dungeon_color = ''#dc2626''\<rparr> ]"

text \<open>The entries of \<^verbatim>\<open>GAME_CONFIG\<close>.\<close>

definition TICK_RATE :: number where
  "TICK_RATE = 60"

definition STRENGTH_PER_TICK :: number where
  "STRENGTH_PER_TICK = 0.1"

definition EXPERIENCE_PER_TICK :: number where
  "EXPERIENCE_PER_TICK = 0.05"

definition GLOBE_RADIUS :: number where
  "GLOBE_RADIUS = 5"

section \<open>The game facade: \<^verbatim>\<open>IdleDungeonGame\<close>\<close>

record Player =
  strength :: number
  experience :: number
  level :: number
  gold :: number

text \<open>
  The three \<^verbatim>\<open>useState\<close> cells of the component are the fields of the state; the
  state setters of React become updates of the record.
\<close>

record GameState =
  player :: Player
  selectedDungeon :: "Dungeon option"
  gameLog :: "string list"

definition initialGameState :: GameState where
  "initialGameState =
    \<lparr>player = \<lparr>strength = 1, experience = 0, level = 1, gold = 0\<rparr>,
     selectedDungeon = None,
     gameLog = []\<rparr>"

text \<open>
  The callback of \<^verbatim>\<open>setInterval\<close>: one tick of idle progression,
  \<^verbatim>\<open>setPlayer(prev => ...)\<close> with \<^verbatim>\<open>Math.floor(newExperience / 10) + 1\<close>
  as the new level.
\<close>

definition gameLoop :: "GameState \<Rightarrow> GameState" where
  "gameLoop st =
    (let prev = player st;
         newExperience = experience prev + EXPERIENCE_PER_TICK;
         newLevel = of_int \<lfloor>newExperience / 10\<rfloor> + 1
     in st\<lparr>player := prev\<lparr>strength := strength prev + STRENGTH_PER_TICK,
                              experience := newExperience,
                              level := newLevel\<rparr>\<rparr>)"

definition handleDungeonSelect :: "Dungeon option \<Rightarrow> GameState \<Rightarrow> GameState" where
  "handleDungeonSelect dungeon st = st\<lparr>selectedDungeon := dungeon\<rparr>"

text \<open>
  \<^verbatim>\<open>Array.prototype.slice(start)\<close> with one argument: a negative \<^verbatim>\<open>start\<close> counts
  from the end and is clamped at the first element, a \<^verbatim>\<open>start\<close> beyond the end
  gives the empty array.
\<close>

definition slice :: "int \<Rightarrow> 'a list \<Rightarrow> 'a list" where
  "slice start xs =
    (let len = int (length xs);
         k = (if start < 0 then max (len + start) 0 else min start len)
     in drop (nat k) xs)"

text \<open>
  The template literal of the log entry. The conversion of a number to its decimal text
  is the language's own (\<^verbatim>\<open>Number::toString\<close>); it is the parameter \<open>toString\<close>.
\<close>

definition raidMessage :: "(number \<Rightarrow> string) \<Rightarrow> Dungeon \<Rightarrow> number \<Rightarrow> number \<Rightarrow> string" where
  "raidMessage toString dungeon goldReward expReward =
    ''Successfully raided '' @ dungeon_name dungeon @ ''! Gained '' @ toString goldReward
      @ '' gold and '' @ toString expReward @ '' experience.''"

text \<open>
  \<^verbatim>\<open>handleRaid\<close> is created anew by every render of the component: the \<^verbatim>\<open>player\<close> it
  compares with the threshold is the player of that render (the argument \<open>p\<close>), while
  the two functional updates \<^verbatim>\<open>setPlayer(prev => ...)\<close> and
  \<^verbatim>\<open>setGameLog(prev => ...)\<close> act on the state that is current when they run (the
  argument \<open>st\<close>).
\<close>

definition handleRaid :: "(number \<Rightarrow> string) \<Rightarrow> Player \<Rightarrow> Dungeon \<Rightarrow> GameState \<Rightarrow> GameState" where
  "handleRaid toString p dungeon st =
    (let success = (strength p \<ge> requiredStrength dungeon)
     in if success then
          (let goldReward = dungeon_level dungeon * 10;
               expReward = dungeon_level dungeon * 5;
               prev = player st;
               st1 = st\<lparr>player := prev\<lparr>gold := gold prev + goldReward,
                                         experience := experience prev + expReward\<rparr>\<rparr>
           in st1\<lparr>gameLog := slice (- 4) (gameLog st1)
                                @ [raidMessage toString dungeon goldReward expReward]\<rparr>)
        else st)"

text \<open>
  The states the component can reach: from the initial state by ticks of the game loop,
  by selections reported by the globe, and by raids. A raid handler may hold the player
  of any render, so \<open>p\<close> is arbitrary.
\<close>

inductive reachable :: "(number \<Rightarrow> string) \<Rightarrow> GameState \<Rightarrow> bool"
  for toString :: "number \<Rightarrow> string" where
  init: "reachable toString initialGameState"
| tick: "reachable toString st \<Longrightarrow> reachable toString (gameLoop st)"
| select: "reachable toString st \<Longrightarrow> reachable toString (handleDungeonSelect d st)"
| raid: "reachable toString st \<Longrightarrow> reachable toString (handleRaid toString p d st)"

code_pred reachable .

section \<open>Vectors of the scene\<close>

text \<open>
  The methods of \<^verbatim>\<open>THREE.Vector3\<close> the component calls, as three.js computes them.
  \<^verbatim>\<open>length\<close> and \<^verbatim>\<open>normalize\<close> carry the suffix \<open>V\<close>: both names are constants of
  HOL. \<^verbatim>\<open>normalize()\<close> is \<^verbatim>\<open>divideScalar(this.length() || 1)\<close>, so the zero vector
  stays the zero vector.
\<close>

datatype Vector3 = Vector3 (vx: number) (vy: number) (vz: number)

definition sub :: "Vector3 \<Rightarrow> Vector3 \<Rightarrow> Vector3" where
  "sub a b = Vector3 (vx a - vx b) (vy a - vy b) (vz a - vz b)"

definition dot :: "Vector3 \<Rightarrow> Vector3 \<Rightarrow> number" where
  "dot a b = vx a * vx b + vy a * vy b + vz a * vz b"

definition multiplyScalar :: "Vector3 \<Rightarrow> number \<Rightarrow> Vector3" where
  "multiplyScalar a k = Vector3 (vx a * k) (vy a * k) (vz a * k)"

definition divideScalar :: "Vector3 \<Rightarrow> number \<Rightarrow> Vector3" where
  "divideScalar a k = multiplyScalar a (1 / k)"

definition lengthV :: "Vector3 \<Rightarrow> number" where
  "lengthV a = sqrt (vx a * vx a + vy a * vy a + vz a * vz a)"

definition normalizeV :: "Vector3 \<Rightarrow> Vector3" where
  "normalizeV a = divideScalar a (if lengthV a = 0 then 1 else lengthV a)"

definition setScalar :: "number \<Rightarrow> Vector3" where
  "setScalar k = Vector3 k k k"

section \<open>The globe component\<close>

text \<open>
  A dungeon marker: a \<^verbatim>\<open>THREE.Mesh\<close> with its local position in the rotating group,
  its \<^verbatim>\<open>userData = { dungeon, index }\<close>, the three fields of its material that the
  component writes, and its scale.
\<close>

record Marker =
  position :: Vector3
  dungeon :: Dungeon
  index :: nat
  opacity :: number
  transparent :: bool
  emissiveIntensity :: number
  scale :: Vector3

text \<open>
  The objects the ray is cast against: the globe mesh, whose \<^verbatim>\<open>userData\<close> is the empty
  object, and the markers. \<open>userData_dungeon\<close> is the value of
  \<^verbatim>\<open>object.userData.dungeon\<close>: absent (\<^verbatim>\<open>undefined\<close>) on the globe.
\<close>

datatype Object3D = GlobeMesh | MarkerMesh Marker

fun userData_dungeon :: "Object3D \<Rightarrow> Dungeon option" where
  "userData_dungeon GlobeMesh = None"
| "userData_dungeon (MarkerMesh m) = Some (dungeon m)"

text \<open>
  One entry of the array \<^verbatim>\<open>raycaster.intersectObjects(allObjects)\<close> returns; three.js
  returns the entries sorted by distance, nearest first.
\<close>

record Intersection =
  distance :: number
  object :: Object3D

record MouseEvent =
  clientX :: number
  clientY :: number

text \<open>\<^verbatim>\<open>mouseRef.current\<close>; its fields \<^verbatim>\<open>x\<close> and \<^verbatim>\<open>y\<close> are \<open>mouse_x\<close> and \<open>mouse_y\<close>.\<close>

record MouseRef =
  mouse_x :: number
  mouse_y :: number
  isDragging :: bool
  lastX :: number
  lastY :: number

text \<open>
  \<^verbatim>\<open>rotationRef.current\<close>, and the \<^verbatim>\<open>x\<close> and \<^verbatim>\<open>y\<close> of \<^verbatim>\<open>globe.rotation\<close> (nothing
  writes its \<^verbatim>\<open>z\<close>).
\<close>

record Rotation =
  rot_x :: number
  rot_y :: number

datatype EventType = mousedown | mousemove | mouseup | click

text \<open>
  The props of \<^verbatim>\<open>Globe\<close>. The third prop, \<^verbatim>\<open>onDungeonSelect\<close>, is a callback: the
  model returns the list of its invocations (each with its argument) instead.
\<close>

record GlobeProps =
  props_dungeons :: "Dungeon list"
  props_selectedDungeon :: "Dungeon option"

text \<open>
  Everything one mounted \<^verbatim>\<open>Globe\<close> owns: its refs, the variables its effect closes
  over, and what the effect registered with the browser. \<open>closure_selectedDungeon\<close>
  is the variable \<^verbatim>\<open>selectedDungeon\<close> as the functions created by the effect see it;
  \<open>rafCallbacks\<close> counts the pending callbacks of \<^verbatim>\<open>requestAnimationFrame\<close>;
  \<open>rendered\<close> counts the calls of \<^verbatim>\<open>renderer.render\<close>.
\<close>

record Scene =
  dungeonMarkers :: "Marker list"
  mouseRef :: MouseRef
  rotationRef :: Rotation
  globe_rotation :: Rotation
  camera_position :: Vector3
  closure_selectedDungeon :: "Dungeon option"
  listeners :: "EventType set"
  canvasMounted :: bool
  rafCallbacks :: nat
  rendered :: nat

text \<open>The refs of a component that has rendered and not yet run its effect.\<close>

definition initialScene :: Scene where
  "initialScene =
    \<lparr>dungeonMarkers = [],
     mouseRef = \<lparr>mouse_x = 0, mouse_y = 0, isDragging = False, lastX = 0, lastY = 0\<rparr>,
     rotationRef = \<lparr>rot_x = 0, rot_y = 0\<rparr>,
     globe_rotation = \<lparr>rot_x = 0, rot_y = 0\<rparr>,
     camera_position = Vector3 0 0 0,
     closure_selectedDungeon = None,
     listeners = {},
     canvasMounted = False,
     rafCallbacks = 0,
     rendered = 0\<rparr>"

text \<open>The body of \<^verbatim>\<open>dungeons.forEach((dungeon, index) => ...)\<close>: one marker.\<close>

definition createMarker :: "nat \<Rightarrow> Dungeon \<Rightarrow> Marker" where
  "createMarker i d =
    (case dungeon_position d of (x, y, z) \<Rightarrow>
      (let vector = normalizeV (Vector3 x y z);
           vector = multiplyScalar vector (GLOBE_RADIUS + 0.4)
       in \<lparr>position = vector, dungeon = d, index = i, opacity = 1, transparent = False,
            emissiveIntensity = 0.4, scale = Vector3 1 1 1\<rparr>))"

subsection \<open>Mouse controls\<close>

definition handleMouseDown :: "MouseEvent \<Rightarrow> Scene \<Rightarrow> Scene" where
  "handleMouseDown event s =
    s\<lparr>mouseRef := (mouseRef s)\<lparr>isDragging := True, lastX := clientX event, lastY := clientY event\<rparr>\<rparr>"

definition handleMouseMove :: "MouseEvent \<Rightarrow> Scene \<Rightarrow> Scene" where
  "handleMouseMove event s =
    (if \<not> isDragging (mouseRef s) then s
     else
       (let deltaX = clientX event - lastX (mouseRef s);
            deltaY = clientY event - lastY (mouseRef s);
            r = \<lparr>rot_x = rot_x (rotationRef s) + deltaY * 0.01,
                 rot_y = rot_y (rotationRef s) + deltaX * 0.01\<rparr>
        in s\<lparr>rotationRef := r,
             globe_rotation := r,
             mouseRef := (mouseRef s)\<lparr>lastX := clientX event, lastY := clientY event\<rparr>\<rparr>))"

definition handleMouseUp :: "Scene \<Rightarrow> Scene" where
  "handleMouseUp s = s\<lparr>mouseRef := (mouseRef s)\<lparr>isDragging := False\<rparr>\<rparr>"

subsection \<open>The front-face test\<close>

text \<open>
  The four lines that \<^verbatim>\<open>handleClick\<close> and \<^verbatim>\<open>animate\<close> both contain: the dot product
  of the direction of the marker and the direction of the camera, both seen from the
  centre of the globe.
\<close>

definition dotProduct :: "Vector3 \<Rightarrow> Vector3 \<Rightarrow> number" where
  "dotProduct worldPosition cameraPosition =
    (let globeCenter = Vector3 0 0 0;
         markerDirection = normalizeV (sub worldPosition globeCenter);
         cameraDirection = normalizeV (sub cameraPosition globeCenter)
     in dot markerDirection cameraDirection)"

subsection \<open>Picking\<close>

text \<open>
  \<^verbatim>\<open>marker.getWorldPosition\<close> belongs to three.js: the position of the marker after the
  rotation of the globe, its ancestor, is applied. It is the parameter \<open>W\<close> of the
  functions below, given the rotation of the globe and the local position of the marker.

  The loop \<^verbatim>\<open>for (let intersect of intersects)\<close> of \<^verbatim>\<open>handleClick\<close>, with the
  statement after it. The result is the list of the calls of \<^verbatim>\<open>onDungeonSelect\<close>.
\<close>

fun pickLoop :: "(Rotation \<Rightarrow> Vector3 \<Rightarrow> Vector3) \<Rightarrow> Scene \<Rightarrow> Intersection list \<Rightarrow> Dungeon option list" where
  "pickLoop W s [] = [None]"
| "pickLoop W s (intersect # rest) =
    (case object intersect of
       GlobeMesh \<Rightarrow> pickLoop W s rest
     | MarkerMesh marker \<Rightarrow>
        (let worldPosition = W (globe_rotation s) (position marker)
         in if dotProduct worldPosition (camera_position s) > 0.3
            then [Some (dungeon marker)]
            else pickLoop W s rest))"

text \<open>
  \<^verbatim>\<open>handleClick\<close>; \<open>intersects\<close> is what the ray caster returned for the click. The
  handler writes nothing, so its result is only the list of callback invocations.
\<close>

definition handleClick :: "(Rotation \<Rightarrow> Vector3 \<Rightarrow> Vector3) \<Rightarrow> Intersection list \<Rightarrow> Scene \<Rightarrow> Dungeon option list" where
  "handleClick W intersects s =
    (if isDragging (mouseRef s) then [] else pickLoop W s intersects)"

subsection \<open>The animation loop\<close>

text \<open>
  The callback of \<^verbatim>\<open>dungeonMarkersRef.current.forEach((marker, index) => ...)\<close> in
  \<^verbatim>\<open>animate\<close>. \<open>now\<close> is the value of \<^verbatim>\<open>Date.now()\<close> in the line of the intensity,
  \<open>now'\<close> its value in the line of the scale.
\<close>

definition animateMarker ::
  "(Rotation \<Rightarrow> Vector3 \<Rightarrow> Vector3) \<Rightarrow> Scene \<Rightarrow> number \<times> number \<Rightarrow> nat \<Rightarrow> Marker \<Rightarrow> Marker" where
  "animateMarker W s t i marker =
    (case t of (now, now') \<Rightarrow>
      (let worldPosition = W (globe_rotation s) (position marker);
           isVisible = (dotProduct worldPosition (camera_position s) > 0.3);
           marker = marker\<lparr>opacity := (if isVisible then 1 else 0.15), transparent := True\<rparr>;
           intensity = (if isVisible then 0.4 + sin (now * 0.001 + real i) * 0.3 else 0.1);
           marker = marker\<lparr>emissiveIntensity := intensity\<rparr>
       in case closure_selectedDungeon s of
            None \<Rightarrow> marker\<lparr>scale := setScalar 1\<rparr>
          | Some selected \<Rightarrow>
             if dungeon_id (dungeon marker) = dungeon_id selected \<and> isVisible
             then marker\<lparr>scale := setScalar (1.5 + sin (now' * 0.005) * 0.2)\<rparr>
             else marker\<lparr>scale := setScalar 1\<rparr>))"

text \<open>
  \<^verbatim>\<open>animate\<close>: it asks for the next frame first, re-applies the stored rotation to the
  globe, styles every marker and renders. \<open>clock\<close> gives, for every index of the marker
  array, the two readings of the wall clock of that iteration.
\<close>

definition animate :: "(Rotation \<Rightarrow> Vector3 \<Rightarrow> Vector3) \<Rightarrow> (nat \<Rightarrow> number \<times> number) \<Rightarrow> Scene \<Rightarrow> Scene" where
  "animate W clock s =
    (let s = s\<lparr>rafCallbacks := rafCallbacks s + 1\<rparr>;
         s = s\<lparr>globe_rotation := rotationRef s\<rparr>;
         s = s\<lparr>dungeonMarkers :=
                 map (\<lambda>(i, marker). animateMarker W s (clock i) i marker)
                   (enumerate 0 (dungeonMarkers s))\<rparr>
     in s\<lparr>rendered := rendered s + 1\<rparr>)"

text \<open>
  The browser at a display frame: it takes the pending callbacks of
  \<^verbatim>\<open>requestAnimationFrame\<close> and runs each of them; here every one of them is
  \<^verbatim>\<open>animate\<close>.
\<close>

definition frame :: "(Rotation \<Rightarrow> Vector3 \<Rightarrow> Vector3) \<Rightarrow> (nat \<Rightarrow> number \<times> number) \<Rightarrow> Scene \<Rightarrow> Scene" where
  "frame W clock s = (animate W clock ^^ rafCallbacks s) (s\<lparr>rafCallbacks := 0\<rparr>)"

fun frames :: "(Rotation \<Rightarrow> Vector3 \<Rightarrow> Vector3) \<Rightarrow> (nat \<Rightarrow> number \<times> number) list \<Rightarrow> Scene \<Rightarrow> Scene" where
  "frames W [] s = s"
| "frames W (clock # clocks) s = frames W clocks (frame W clock s)"

subsection \<open>The effect and its cleanup\<close>

text \<open>
  The body of the effect, run on the refs \<open>s\<close> of the component: camera, markers,
  listeners, and the first call of \<^verbatim>\<open>animate\<close>. The functions it creates close over the
  props of the render the effect belongs to. React has attached the mount target when it
  runs the effect, so the early return of the first line is not taken; the new globe mesh
  starts unrotated, and \<^verbatim>\<open>animate\<close> gives it the stored rotation at once.
\<close>

definition effect ::
  "(Rotation \<Rightarrow> Vector3 \<Rightarrow> Vector3) \<Rightarrow> (nat \<Rightarrow> number \<times> number) \<Rightarrow> GlobeProps \<Rightarrow> Scene \<Rightarrow> Scene" where
  "effect W clock props s =
    (let s = s\<lparr>canvasMounted := True, camera_position := Vector3 0 0 10\<rparr>;
         s = s\<lparr>globe_rotation := \<lparr>rot_x = 0, rot_y = 0\<rparr>\<rparr>;
         s = s\<lparr>dungeonMarkers := dungeonMarkers s
                 @ map (\<lambda>(i, d). createMarker i d) (enumerate 0 (props_dungeons props))\<rparr>;
         s = s\<lparr>closure_selectedDungeon := props_selectedDungeon props\<rparr>;
         s = s\<lparr>listeners := insert click (insert mouseup (insert mousemove
                 (insert mousedown (listeners s))))\<rparr>
     in animate W clock s)"

text \<open>The function the effect returns.\<close>

definition cleanup :: "Scene \<Rightarrow> Scene" where
  "cleanup s =
    (let s = s\<lparr>listeners := listeners s - {mousedown}\<rparr>;
         s = s\<lparr>listeners := listeners s - {mousemove}\<rparr>;
         s = s\<lparr>listeners := listeners s - {mouseup}\<rparr>;
         s = s\<lparr>listeners := listeners s - {click}\<rparr>
     in s\<lparr>canvasMounted := False\<rparr>)"

text \<open>
  React and the effect. \<^verbatim>\<open>useEffect(f, deps)\<close> runs \<open>f\<close> after the first render of the
  component; after a later render it runs the cleanup and \<open>f\<close> again only when \<open>deps\<close>
  differs from the \<open>deps\<close> of the render before. The dependency list of this effect is
  the empty array, whatever the props are.
\<close>

definition effectDeps :: "GlobeProps \<Rightarrow> Dungeon option list" where
  "effectDeps props = []"

definition mountGlobe ::
  "(Rotation \<Rightarrow> Vector3 \<Rightarrow> Vector3) \<Rightarrow> (nat \<Rightarrow> number \<times> number) \<Rightarrow> GlobeProps \<Rightarrow> Scene" where
  "mountGlobe W clock props = effect W clock props initialScene"

definition renderGlobe ::
  "(Rotation \<Rightarrow> Vector3 \<Rightarrow> Vector3) \<Rightarrow> (nat \<Rightarrow> number \<times> number) \<Rightarrow> GlobeProps \<Rightarrow> GlobeProps \<Rightarrow> Scene \<Rightarrow> Scene" where
  "renderGlobe W clock prevProps props s =
    (if effectDeps props \<noteq> effectDeps prevProps then effect W clock props (cleanup s) else s)"

definition unmountGlobe :: "Scene \<Rightarrow> Scene" where
  "unmountGlobe s = cleanup s"

text \<open>
  The browser delivering an event of the canvas: the handler runs when its listener is
  registered. The result is the new scene and the calls of \<^verbatim>\<open>onDungeonSelect\<close>.
\<close>

datatype DomEvent =
  Mousedown MouseEvent
| Mousemove MouseEvent
| Mouseup MouseEvent
| Click MouseEvent "Intersection list"

fun eventType :: "DomEvent \<Rightarrow> EventType" where
  "eventType (Mousedown e) = mousedown"
| "eventType (Mousemove e) = mousemove"
| "eventType (Mouseup e) = mouseup"
| "eventType (Click e intersects) = click"

fun runHandler :: "(Rotation \<Rightarrow> Vector3 \<Rightarrow> Vector3) \<Rightarrow> DomEvent \<Rightarrow> Scene \<Rightarrow> Scene \<times> Dungeon option list" where
  "runHandler W (Mousedown e) s = (handleMouseDown e s, [])"
| "runHandler W (Mousemove e) s = (handleMouseMove e s, [])"
| "runHandler W (Mouseup e) s = (handleMouseUp s, [])"
| "runHandler W (Click e intersects) s = (s, handleClick W intersects s)"

definition dispatchEvent :: "(Rotation \<Rightarrow> Vector3 \<Rightarrow> Vector3) \<Rightarrow> DomEvent \<Rightarrow> Scene \<Rightarrow> Scene \<times> Dungeon option list" where
  "dispatchEvent W ev s = (if eventType ev \<in> listeners s then runHandler W ev s else (s, []))"

section \<open>Notions of the specification\<close>


text \<open>
  The drag deltas of a sequence of move events: every event against the coordinates
  recorded before it, starting from \<open>(x, y)\<close>. \<open>movesOfDeltas\<close> is the converse: the
  move events that have the given deltas.
\<close>

fun deltas :: "number \<Rightarrow> number \<Rightarrow> MouseEvent list \<Rightarrow> (number \<times> number) list" where
  "deltas x y [] = []"
| "deltas x y (event # events) =
    (clientX event - x, clientY event - y) # deltas (clientX event) (clientY event) events"

fun movesOfDeltas :: "number \<Rightarrow> number \<Rightarrow> (number \<times> number) list \<Rightarrow> MouseEvent list" where
  "movesOfDeltas x y [] = []"
| "movesOfDeltas x y ((dx, dy) # ds) =
    \<lparr>clientX = x + dx, clientY = y + dy\<rparr> # movesOfDeltas (x + dx) (y + dy) ds"

text \<open>
  The front-face visibility score of the specification: for a marker at world position
  \<open>P\<close>, the dot product of \<open>normalize (P - center)\<close> and
  \<open>normalize (cameraPosition - center)\<close>.
\<close>

definition frontFaceScore :: "Vector3 \<Rightarrow> Vector3 \<Rightarrow> Vector3 \<Rightarrow> number" where
  "frontFaceScore center P cameraPosition =
    dot (normalizeV (sub P center)) (normalizeV (sub cameraPosition center))"

text \<open>
  The front-face visibility test of the specification, on one intersection: its target
  is a marker, and the score of the marker at its current world position exceeds 0.3. The
  centre of the sphere is the origin.
\<close>

definition passesVisibilityTest :: "(Rotation \<Rightarrow> Vector3 \<Rightarrow> Vector3) \<Rightarrow> Scene \<Rightarrow> Intersection \<Rightarrow> bool" where
  "passesVisibilityTest W s intersect =
    (case object intersect of
       GlobeMesh \<Rightarrow> False
     | MarkerMesh marker \<Rightarrow>
         frontFaceScore (Vector3 0 0 0) (W (globe_rotation s) (position marker))
           (camera_position s) > 0.3)"

section \<open>Raids and the game log\<close>

lemma length_slice_neg4: "length (slice (- 4) xs) \<le> 4"
  by (simp add: slice_def Let_def)

lemma slice_neg4_short: "length xs \<le> 4 \<Longrightarrow> slice (- 4) xs = xs"
  by (simp add: slice_def Let_def)

lemma slice_neg4_long: "4 \<le> length xs \<Longrightarrow> slice (- 4) xs = drop (length xs - 4) xs"
  by (simp add: slice_def Let_def nat_diff_distrib' max_def)

lemma gameLog_handleRaid_success:
  "strength p \<ge> requiredStrength d \<Longrightarrow>
   gameLog (handleRaid toString p d st) =
     slice (- 4) (gameLog st) @ [raidMessage toString d (dungeon_level d * 10) (dungeon_level d * 5)]"
  by (simp add: handleRaid_def Let_def)

lemma handleRaid_failure: "strength p < requiredStrength d \<Longrightarrow> handleRaid toString p d st = st"
  by (simp add: handleRaid_def Let_def)

lemma length_gameLog_handleRaid:
  "length (gameLog st) \<le> 5 \<Longrightarrow> length (gameLog (handleRaid toString p d st)) \<le> 5"
proof (cases "strength p \<ge> requiredStrength d")
  case True
  have "length (slice (- 4) (gameLog st)) \<le> 4"
    by (rule length_slice_neg4)
  with True show ?thesis
    by (simp add: gameLog_handleRaid_success)
next
  case False
  assume "length (gameLog st) \<le> 5"
  with False show ?thesis
    by (simp add: handleRaid_failure)
qed

lemma length_gameLog_success:
  "requiredStrength d \<le> strength p \<Longrightarrow>
   length (gameLog (handleRaid toString p d st)) = min (length (gameLog st) + 1) 5"
  by (simp add: gameLog_handleRaid_success slice_def Let_def)

lemma length_gameLog_raids:
  "requiredStrength d \<le> strength p \<Longrightarrow>
   length (gameLog ((handleRaid toString p d ^^ Suc n) st)) = min (length (gameLog st) + Suc n) 5"
  by (induction n) (simp_all add: length_gameLog_success)

lemma reachable_raids:
  "reachable toString st \<Longrightarrow> reachable toString ((handleRaid toString p d ^^ n) st)"
  by (induction n) (auto intro: reachable.raid)

text \<open>
  Claim C9. A raid on a dungeon whose required strength exceeds the strength of the
  player leaves the whole state (player and game log) as it was. When the strength of
  the player is at least the threshold, the raid adds the dungeon's level times 10 to the
  gold and the dungeon's level times 5 to the experience, leaves strength, level and
  selection alone, and the new log is the last four entries of the old log followed by
  exactly one new entry.
\<close>

theorem handleRaid_threshold:
  "(strength p < requiredStrength d \<longrightarrow> handleRaid toString p d st = st) \<and>
   (requiredStrength d \<le> strength p \<longrightarrow>
      gold (player (handleRaid toString p d st)) = gold (player st) + dungeon_level d * 10 \<and>
      experience (player (handleRaid toString p d st))
        = experience (player st) + dungeon_level d * 5 \<and>
      strength (player (handleRaid toString p d st)) = strength (player st) \<and>
      level (player (handleRaid toString p d st)) = level (player st) \<and>
      selectedDungeon (handleRaid toString p d st) = selectedDungeon st \<and>
      gameLog (handleRaid toString p d st) =
        slice (- 4) (gameLog st)
          @ [raidMessage toString d (dungeon_level d * 10) (dungeon_level d * 5)])"
proof (intro conjI impI)
  assume "strength p < requiredStrength d"
  then show "handleRaid toString p d st = st"
    by (rule handleRaid_failure)
next
  assume ok: "requiredStrength d \<le> strength p"
  then show "gold (player (handleRaid toString p d st)) = gold (player st) + dungeon_level d * 10"
    by (simp add: handleRaid_def Let_def)
  from ok show "experience (player (handleRaid toString p d st))
      = experience (player st) + dungeon_level d * 5"
    by (simp add: handleRaid_def Let_def)
  from ok show "strength (player (handleRaid toString p d st)) = strength (player st)"
    by (simp add: handleRaid_def Let_def)
  from ok show "level (player (handleRaid toString p d st)) = level (player st)"
    by (simp add: handleRaid_def Let_def)
  from ok show "selectedDungeon (handleRaid toString p d st) = selectedDungeon st"
    by (simp add: handleRaid_def Let_def)
  from ok show "gameLog (handleRaid toString p d st) =
      slice (- 4) (gameLog st)
        @ [raidMessage toString d (dungeon_level d * 10) (dungeon_level d * 5)]"
    by (rule gameLog_handleRaid_success)
qed

text \<open>
  The claim at the first dungeon of the table (threshold 10): the initial player
  (strength 1) changes nothing, a player of strength 10 gains 10 gold and 5 experience and
  the log receives its first entry.
\<close>

theorem handleRaid_threshold_witness:
  "handleRaid (\<lambda>x. if x = 10 then ''10'' else ''5'') (player initialGameState)
      (DUNGEONS ! 0) initialGameState = initialGameState \<and>
   gold (player (handleRaid (\<lambda>x. if x = 10 then ''10'' else ''5'')
      \<lparr>strength = 10, experience = 0, level = 1, gold = 0\<rparr> (DUNGEONS ! 0) initialGameState)) = 10 \<and>
   experience (player (handleRaid (\<lambda>x. if x = 10 then ''10'' else ''5'')
      \<lparr>strength = 10, experience = 0, level = 1, gold = 0\<rparr> (DUNGEONS ! 0) initialGameState)) = 5 \<and>
   gameLog (handleRaid (\<lambda>x. if x = 10 then ''10'' else ''5'')
      \<lparr>strength = 10, experience = 0, level = 1, gold = 0\<rparr> (DUNGEONS ! 0) initialGameState)
     = [''Successfully raided Goblin Cave! Gained 10 gold and 5 experience.'']"
  using handleRaid_threshold [where p = "player initialGameState" and d = "DUNGEONS ! 0"
      and toString = "\<lambda>x. if x = 10 then ''10'' else ''5''" and st = initialGameState]
    handleRaid_threshold [where p = "\<lparr>strength = 10, experience = 0, level = 1, gold = 0\<rparr>"
      and d = "DUNGEONS ! 0" and toString = "\<lambda>x. if x = 10 then ''10'' else ''5''"
      and st = initialGameState]
  by (simp add: DUNGEONS_def initialGameState_def slice_def raidMessage_def)

text \<open>
  Claim C10. The game log never holds more than five entries: in every state reachable
  from the initial state (empty log) the log has at most five entries, and in such a
  state a successful raid produces the last four entries of the log, which are at most
  four, followed by one new entry.
\<close>

theorem gameLog_at_most_five:
  assumes "reachable toString st"
  shows "length (gameLog st) \<le> 5 \<and>
    (\<forall>p d. requiredStrength d \<le> strength p \<longrightarrow>
       gameLog (handleRaid toString p d st) =
         slice (- 4) (gameLog st)
           @ [raidMessage toString d (dungeon_level d * 10) (dungeon_level d * 5)] \<and>
       length (slice (- 4) (gameLog st)) \<le> 4)"
proof
  from assms show "length (gameLog st) \<le> 5"
  proof (induction rule: reachable.induct)
    case init
    show ?case by (simp add: initialGameState_def)
  next
    case (tick st)
    then show ?case by (simp add: gameLoop_def Let_def)
  next
    case (select st d)
    then show ?case by (simp add: handleDungeonSelect_def)
  next
    case (raid st p d)
    then show ?case by (simp add: length_gameLog_handleRaid)
  qed
next
  show "\<forall>p d. requiredStrength d \<le> strength p \<longrightarrow>
       gameLog (handleRaid toString p d st) =
         slice (- 4) (gameLog st)
           @ [raidMessage toString d (dungeon_level d * 10) (dungeon_level d * 5)] \<and>
       length (slice (- 4) (gameLog st)) \<le> 4"
    by (simp add: gameLog_handleRaid_success length_slice_neg4)
qed

text \<open>
  Six successful raids in a row from the initial state: the state is reachable, and its
  log holds five entries, not six.
\<close>

theorem gameLog_at_most_five_witness:
  "length (gameLog ((handleRaid (\<lambda>x. ''n'') \<lparr>strength = 10, experience = 0, level = 1, gold = 0\<rparr>
      (DUNGEONS ! 0) ^^ 6) initialGameState)) = 5"
proof -
  have r: "reachable (\<lambda>x. ''n'') ((handleRaid (\<lambda>x. ''n'')
      \<lparr>strength = 10, experience = 0, level = 1, gold = 0\<rparr> (DUNGEONS ! 0) ^^ 6) initialGameState)"
    by (rule reachable_raids [OF reachable.init])
  have "5 \<le> length (gameLog ((handleRaid (\<lambda>x. ''n'')
      \<lparr>strength = 10, experience = 0, level = 1, gold = 0\<rparr> (DUNGEONS ! 0) ^^ 6) initialGameState))"
    using length_gameLog_raids [where p = "\<lparr>strength = 10, experience = 0, level = 1, gold = 0\<rparr>"
        and d = "DUNGEONS ! 0" and n = 5 and st = initialGameState and toString = "\<lambda>x. ''n''"]
    by (simp add: DUNGEONS_def initialGameState_def eval_nat_numeral)
  with gameLog_at_most_five [OF r] show ?thesis
    by simp
qed

section \<open>Vectors\<close>

lemma lengthV_z: "lengthV (Vector3 0 0 c) = \<bar>c\<bar>"
  by (simp add: lengthV_def)

lemma normalizeV_z: "normalizeV (Vector3 0 0 c) = Vector3 0 0 (sgn c)"
  by (simp add: normalizeV_def lengthV_z divideScalar_def multiplyScalar_def sgn_real_def)

lemma dotProduct_z: "dotProduct (Vector3 0 0 a) (Vector3 0 0 b) = sgn a * sgn b"
  by (simp add: dotProduct_def Let_def sub_def normalizeV_z dot_def)

lemma lengthV_nonneg: "0 \<le> lengthV a"
  by (simp add: lengthV_def)

lemma lengthV_eq_0_iff: "lengthV a = 0 \<longleftrightarrow> a = Vector3 0 0 0"
proof (cases a)
  case (Vector3 x y z)
  have "x * x + y * y + z * z = 0 \<longleftrightarrow> x = 0 \<and> y = 0 \<and> z = 0"
    by (metis add_nonneg_eq_0_iff add_nonneg_nonneg mult_eq_0_iff zero_le_square)
  with Vector3 show ?thesis
    by (simp add: lengthV_def)
qed

lemma lengthV_multiplyScalar: "lengthV (multiplyScalar a k) = \<bar>k\<bar> * lengthV a"
proof -
  have "vx a * k * (vx a * k) + vy a * k * (vy a * k) + vz a * k * (vz a * k)
      = (k * k) * (vx a * vx a + vy a * vy a + vz a * vz a)"
    by (simp add: algebra_simps)
  then show ?thesis
    by (simp add: lengthV_def multiplyScalar_def real_sqrt_mult)
qed

lemma lengthV_normalizeV: "a \<noteq> Vector3 0 0 0 \<Longrightarrow> lengthV (normalizeV a) = 1"
  using lengthV_nonneg [of a]
  by (simp add: normalizeV_def divideScalar_def lengthV_multiplyScalar lengthV_eq_0_iff)

lemma normalizeV_zero: "normalizeV (Vector3 0 0 0) = Vector3 0 0 0"
  by (simp add: normalizeV_def divideScalar_def multiplyScalar_def lengthV_def)

lemma normalizeV_multiplyScalar:
  assumes "0 < k"
  shows "normalizeV (multiplyScalar a k) = normalizeV a"
proof (cases "a = Vector3 0 0 0")
  case True
  then show ?thesis
    by (simp add: multiplyScalar_def normalizeV_zero)
next
  case False
  then have l: "lengthV a \<noteq> 0"
    by (simp add: lengthV_eq_0_iff)
  from assms have lk: "lengthV (multiplyScalar a k) = k * lengthV a"
    by (simp add: lengthV_multiplyScalar)
  with assms l have "normalizeV (multiplyScalar a k)
      = multiplyScalar (multiplyScalar a k) (1 / (k * lengthV a))"
    by (simp add: normalizeV_def divideScalar_def)
  also from assms have "\<dots> = multiplyScalar a (1 / lengthV a)"
    by (simp add: multiplyScalar_def)
  also from l have "\<dots> = normalizeV a"
    by (simp add: normalizeV_def divideScalar_def)
  finally show ?thesis .
qed

lemma position_createMarker:
  "position (createMarker i d) =
    multiplyScalar (normalizeV (case dungeon_position d of (x, y, z) \<Rightarrow> Vector3 x y z))
      (GLOBE_RADIUS + 0.4)"
  by (simp add: createMarker_def Let_def split: prod.splits)

lemma sub_zero: "sub a (Vector3 0 0 0) = a"
  by (simp add: sub_def)

lemma normalizeV_idem: "normalizeV (normalizeV a) = normalizeV a"
proof (cases "a = Vector3 0 0 0")
  case True
  then show ?thesis by (simp add: normalizeV_zero)
next
  case False
  then have "lengthV (normalizeV a) = 1"
    by (rule lengthV_normalizeV)
  then have "normalizeV (normalizeV a) = multiplyScalar (normalizeV a) 1"
    by (simp add: normalizeV_def [of "normalizeV a"] divideScalar_def)
  then show ?thesis
    by (simp add: multiplyScalar_def)
qed

lemma dotProduct_camera_z:
  assumes "0 < c"
  shows "dotProduct P (Vector3 0 0 c) = vz (normalizeV P)"
proof -
  from assms have "normalizeV (Vector3 0 0 c) = Vector3 0 0 1"
    by (simp add: normalizeV_z)
  then show ?thesis
    by (simp add: dotProduct_def Let_def sub_zero dot_def)
qed

lemma dotProduct_createMarker:
  assumes "0 < c" and "dungeon_position d = (x, y, z)"
  shows "dotProduct (position (createMarker i d)) (Vector3 0 0 c) = vz (normalizeV (Vector3 x y z))"
proof -
  have "normalizeV (multiplyScalar (normalizeV (Vector3 x y z)) (GLOBE_RADIUS + 0.4))
      = normalizeV (normalizeV (Vector3 x y z))"
    by (rule normalizeV_multiplyScalar) (simp add: GLOBE_RADIUS_def)
  with assms show ?thesis
    by (simp add: dotProduct_camera_z position_createMarker normalizeV_idem)
qed

text \<open>
  The front-face score of two markers of the table with the globe unrotated and the camera
  at its place: the first dungeon faces the camera, the fifth does not.
\<close>

lemma sqrt17: "sqrt 17 < 5"
  by (rule real_less_lsqrt) simp_all

lemma goblin_visible:
  "dotProduct (position (createMarker 0 (DUNGEONS ! 0))) (Vector3 0 0 10) > 0.3"
proof -
  have "dotProduct (position (createMarker 0 (DUNGEONS ! 0))) (Vector3 0 0 10)
      = vz (normalizeV (Vector3 2 3 2))"
    by (rule dotProduct_createMarker) (simp_all add: DUNGEONS_def)
  also have "\<dots> = 2 / sqrt 17"
    by (simp add: normalizeV_def lengthV_def divideScalar_def multiplyScalar_def)
  finally have e: "dotProduct (position (createMarker 0 (DUNGEONS ! 0))) (Vector3 0 0 10)
      = 2 / sqrt 17" .
  from sqrt17 have "0.3 * sqrt 17 < 2"
    by simp
  then have "0.3 < 2 / sqrt 17"
    by (simp add: pos_less_divide_eq)
  with e show ?thesis
    by simp
qed

lemma demon_hidden:
  "\<not> dotProduct (position (createMarker 4 (DUNGEONS ! 4))) (Vector3 0 0 10) > 0.3"
proof -
  have "dotProduct (position (createMarker 4 (DUNGEONS ! 4))) (Vector3 0 0 10)
      = vz (normalizeV (Vector3 3 1 (- 2)))"
    by (rule dotProduct_createMarker) (simp_all add: DUNGEONS_def)
  also have "\<dots> = - 2 / sqrt 14"
    by (simp add: normalizeV_def lengthV_def divideScalar_def multiplyScalar_def)
  also have "\<dots> \<le> 0"
    by simp
  finally show ?thesis
    by simp
qed

section \<open>Marker placement\<close>




section \<open>Dragging\<close>

lemma deltas_movesOfDeltas: "deltas x y (movesOfDeltas x y ds) = ds"
  by (induction x y ds rule: movesOfDeltas.induct) simp_all





section \<open>Picking\<close>

lemma length_pickLoop: "length (pickLoop W s intersects) = 1"
  by (induction intersects) (simp_all add: Let_def split: Object3D.splits)

lemma pickLoop_find:
  "pickLoop W s intersects =
    [case find (passesVisibilityTest W s) intersects of
       None \<Rightarrow> None
     | Some i \<Rightarrow> userData_dungeon (object i)]"
  by (induction intersects)
    (simp_all add: passesVisibilityTest_def frontFaceScore_def dotProduct_def Let_def
      split: Object3D.splits)

lemma find_sorted_nearest:
  "sorted (map distance intersects) \<Longrightarrow> find P intersects = Some i \<Longrightarrow>
   j \<in> set intersects \<Longrightarrow> P j \<Longrightarrow> distance i \<le> distance j"
proof (induction intersects)
  case Nil
  then show ?case by simp
next
  case (Cons a intersects)
  show ?case
  proof (cases "P a")
    case True
    with Cons.prems have "i = a" by simp
    with Cons.prems show ?thesis by auto
  next
    case False
    with Cons.prems have "find P intersects = Some i" "j \<in> set intersects" "sorted (map distance intersects)"
      by auto
    with Cons.IH Cons.prems(4) show ?thesis by blast
  qed
qed

text \<open>
  Claim C7. With the drag flag set the click handler calls the selection callback not at
  all; with the flag clear it calls it exactly once, with a descriptor or with none.
\<close>

theorem click_callback_count:
  "(isDragging (mouseRef s) \<longrightarrow> handleClick W intersects s = []) \<and>
   (\<not> isDragging (mouseRef s) \<longrightarrow> (\<exists>r. handleClick W intersects s = [r]))"
proof (intro conjI impI)
  assume "isDragging (mouseRef s)"
  then show "handleClick W intersects s = []"
    by (simp add: handleClick_def)
next
  assume "\<not> isDragging (mouseRef s)"
  then have "length (handleClick W intersects s) = 1"
    by (simp add: handleClick_def length_pickLoop)
  then show "\<exists>r. handleClick W intersects s = [r]"
    by (cases "handleClick W intersects s") simp_all
qed

text \<open>
  A click on the first marker while the button is down reports nothing; the same click
  after the button went up reports once.
\<close>

theorem click_callback_count_witness:
  "handleClick (\<lambda>r p. p) [\<lparr>distance = 4.6, object = MarkerMesh (createMarker 0 (DUNGEONS ! 0))\<rparr>]
      (handleMouseDown \<lparr>clientX = 0, clientY = 0\<rparr> initialScene) = [] \<and>
   (\<exists>r. handleClick (\<lambda>r p. p) [\<lparr>distance = 4.6, object = MarkerMesh (createMarker 0 (DUNGEONS ! 0))\<rparr>]
      (handleMouseUp (handleMouseDown \<lparr>clientX = 0, clientY = 0\<rparr> initialScene)) = [r])"
  using click_callback_count [where s = "handleMouseDown \<lparr>clientX = 0, clientY = 0\<rparr> initialScene"
      and W = "\<lambda>r p. p"
      and intersects = "[\<lparr>distance = 4.6, object = MarkerMesh (createMarker 0 (DUNGEONS ! 0))\<rparr>]"]
    click_callback_count [where s = "handleMouseUp (handleMouseDown \<lparr>clientX = 0, clientY = 0\<rparr> initialScene)"
      and W = "\<lambda>r p. p"
      and intersects = "[\<lparr>distance = 4.6, object = MarkerMesh (createMarker 0 (DUNGEONS ! 0))\<rparr>]"]
  by (simp add: handleMouseDown_def handleMouseUp_def initialScene_def)

text \<open>
  Claim C1. On a click that is not a drag, the callback receives the descriptor of the
  first intersection, in the order of the array, that is a marker and passes the
  front-face test (score above 0.3); intersections that are no marker or fail the test
  are passed over, nothing after the first success is looked at, and when no
  intersection passes the callback receives no descriptor. With the array in ascending
  order of distance, the marker reported is a nearest one among those that pass.
\<close>

theorem handleClick_first_visible_marker:
  assumes "\<not> isDragging (mouseRef s)"
  shows "handleClick W intersects s =
      [case find (passesVisibilityTest W s) intersects of
         None \<Rightarrow> None
       | Some i \<Rightarrow> userData_dungeon (object i)] \<and>
    (sorted (map distance intersects) \<longrightarrow>
      (\<forall>i j. find (passesVisibilityTest W s) intersects = Some i \<and> j \<in> set intersects \<and>
          passesVisibilityTest W s j \<longrightarrow> distance i \<le> distance j))"
proof (intro conjI impI allI)
  from assms show "handleClick W intersects s =
      [case find (passesVisibilityTest W s) intersects of
         None \<Rightarrow> None
       | Some i \<Rightarrow> userData_dungeon (object i)]"
    by (simp add: handleClick_def pickLoop_find)
next
  fix i j
  assume "sorted (map distance intersects)"
    and "find (passesVisibilityTest W s) intersects = Some i \<and> j \<in> set intersects \<and>
          passesVisibilityTest W s j"
  then show "distance i \<le> distance j"
    using find_sorted_nearest [of intersects "passesVisibilityTest W s" i j] by simp
qed

section \<open>The scene after mounting, and a frame\<close>

lemma dotProduct_frontFaceScore: "dotProduct P C = frontFaceScore (Vector3 0 0 0) P C"
  by (simp add: dotProduct_def frontFaceScore_def Let_def)

lemma length_animate: "length (dungeonMarkers (animate W clock s)) = length (dungeonMarkers s)"
  by (simp add: animate_def Let_def)

lemma nth_animate:
  "i < length (dungeonMarkers s) \<Longrightarrow>
   dungeonMarkers (animate W clock s) ! i =
     animateMarker W (s\<lparr>rafCallbacks := rafCallbacks s + 1, globe_rotation := rotationRef s\<rparr>)
       (clock i) i (dungeonMarkers s ! i)"
  by (simp add: animate_def Let_def nth_enumerate_eq)

lemma animate_fields:
  "rafCallbacks (animate W clock s) = rafCallbacks s + 1"
  "rendered (animate W clock s) = rendered s + 1"
  "listeners (animate W clock s) = listeners s"
  "canvasMounted (animate W clock s) = canvasMounted s"
  "camera_position (animate W clock s) = camera_position s"
  "closure_selectedDungeon (animate W clock s) = closure_selectedDungeon s"
  "mouseRef (animate W clock s) = mouseRef s"
  "rotationRef (animate W clock s) = rotationRef s"
  "globe_rotation (animate W clock s) = rotationRef s"
  by (simp_all add: animate_def Let_def)

lemma animateMarker_keeps:
  "position (animateMarker W s t i m) = position m"
  "dungeon (animateMarker W s t i m) = dungeon m"
  "index (animateMarker W s t i m) = index m"
  by (simp_all add: animateMarker_def Let_def split: prod.splits option.splits)

lemma animateMarker_visible:
  "opacity (animateMarker W s t i m) =
     (if dotProduct (W (globe_rotation s) (position m)) (camera_position s) > 0.3 then 1 else 0.15)"
  "emissiveIntensity (animateMarker W s t i m) =
     (if dotProduct (W (globe_rotation s) (position m)) (camera_position s) > 0.3
      then 0.4 + sin (fst t * 0.001 + real i) * 0.3 else 0.1)"
  by (simp_all add: animateMarker_def Let_def split: prod.splits option.splits)

lemma animateMarker_scale:
  "scale (animateMarker W s t i m) =
     (case closure_selectedDungeon s of
        None \<Rightarrow> Vector3 1 1 1
      | Some selected \<Rightarrow>
          if dungeon_id (dungeon m) = dungeon_id selected \<and>
             dotProduct (W (globe_rotation s) (position m)) (camera_position s) > 0.3
          then setScalar (1.5 + sin (snd t * 0.005) * 0.2) else Vector3 1 1 1)"
  by (simp add: animateMarker_def Let_def setScalar_def split: prod.splits option.splits)

lemma funpow_animate_fields:
  "rafCallbacks ((animate W clock ^^ n) s) = rafCallbacks s + n"
  "rendered ((animate W clock ^^ n) s) = rendered s + n"
  "listeners ((animate W clock ^^ n) s) = listeners s"
  "closure_selectedDungeon ((animate W clock ^^ n) s) = closure_selectedDungeon s"
  by (induction n) (simp_all add: animate_fields)

lemma frame_fields:
  "rafCallbacks (frame W clock s) = rafCallbacks s"
  "rendered (frame W clock s) = rendered s + rafCallbacks s"
  "listeners (frame W clock s) = listeners s"
  "closure_selectedDungeon (frame W clock s) = closure_selectedDungeon s"
  by (simp_all add: frame_def funpow_animate_fields)

lemma frames_fields:
  "rafCallbacks (frames W clocks s) = rafCallbacks s"
  "rendered (frames W clocks s) = rendered s + length clocks * rafCallbacks s"
  "listeners (frames W clocks s) = listeners s"
  "closure_selectedDungeon (frames W clocks s) = closure_selectedDungeon s"
  by (induction clocks arbitrary: s) (simp_all add: frame_fields)

lemma mountGlobe_fields:
  "rafCallbacks (mountGlobe W clock props) = 1"
  "rendered (mountGlobe W clock props) = 1"
  "listeners (mountGlobe W clock props) = {mousedown, mousemove, mouseup, click}"
  "canvasMounted (mountGlobe W clock props) = True"
  "camera_position (mountGlobe W clock props) = Vector3 0 0 10"
  "closure_selectedDungeon (mountGlobe W clock props) = props_selectedDungeon props"
  "mouseRef (mountGlobe W clock props) = mouseRef initialScene"
  "rotationRef (mountGlobe W clock props) = \<lparr>rot_x = 0, rot_y = 0\<rparr>"
  "globe_rotation (mountGlobe W clock props) = \<lparr>rot_x = 0, rot_y = 0\<rparr>"
  by (auto simp add: mountGlobe_def effect_def animate_fields Let_def initialScene_def)

lemma cleanup_fields:
  "rafCallbacks (cleanup s) = rafCallbacks s"
  "rendered (cleanup s) = rendered s"
  "listeners (cleanup s) = listeners s - {mousedown, mousemove, mouseup, click}"
  "canvasMounted (cleanup s) = False"
  by (auto simp add: cleanup_def Let_def)

lemma length_mountGlobe:
  "length (dungeonMarkers (mountGlobe W clock props)) = length (props_dungeons props)"
  by (simp add: mountGlobe_def effect_def Let_def length_animate initialScene_def)

lemma nth_mountGlobe:
  assumes "i < length (props_dungeons props)"
  shows "position (dungeonMarkers (mountGlobe W clock props) ! i)
      = position (createMarker i (props_dungeons props ! i))"
    and "dungeon (dungeonMarkers (mountGlobe W clock props) ! i) = props_dungeons props ! i"
  using assms
  by (simp_all add: mountGlobe_def effect_def Let_def nth_animate animateMarker_keeps
      initialScene_def nth_enumerate_eq createMarker_def split: prod.splits)

lemma frame_single: "rafCallbacks s = 1 \<Longrightarrow> frame W clock s = animate W clock (s\<lparr>rafCallbacks := 0\<rparr>)"
  by (simp add: frame_def)

lemma passesVisibilityTest_marker:
  "passesVisibilityTest W s \<lparr>distance = k, object = MarkerMesh m\<rparr>
    = (dotProduct (W (globe_rotation s) (position m)) (camera_position s) > 0.3)"
  by (simp add: passesVisibilityTest_def frontFaceScore_def dotProduct_def Let_def)

lemma passesVisibilityTest_globe:
  "passesVisibilityTest W s \<lparr>distance = k, object = GlobeMesh\<rparr> = False"
  by (simp add: passesVisibilityTest_def)

lemma pulse_not_unit: "setScalar (1.5 + sin t * 0.2) \<noteq> Vector3 1 1 1"
proof -
  have "- 1 \<le> sin t"
    by simp
  then have "1 < 1.5 + sin t * 0.2"
    by linarith
  then show ?thesis
    by (simp add: setScalar_def)
qed

text \<open>
  The claim at a scene mounted with the dungeons of the table, the globe unrotated: the ray
  meets the globe, then the marker of the fifth dungeon, which faces away from the
  camera, then the marker of the first dungeon, which faces it. The first dungeon is
  reported.
\<close>

theorem handleClick_first_visible_marker_witness:
  "handleClick (\<lambda>r p. p)
     [\<lparr>distance = 6, object = GlobeMesh\<rparr>,
      \<lparr>distance = 13, object = MarkerMesh (dungeonMarkers
         (mountGlobe (\<lambda>r p. p) (\<lambda>i. (0, 0)) \<lparr>props_dungeons = DUNGEONS, props_selectedDungeon = None\<rparr>) ! 4)\<rparr>,
      \<lparr>distance = 14, object = MarkerMesh (dungeonMarkers
         (mountGlobe (\<lambda>r p. p) (\<lambda>i. (0, 0)) \<lparr>props_dungeons = DUNGEONS, props_selectedDungeon = None\<rparr>) ! 0)\<rparr>]
     (mountGlobe (\<lambda>r p. p) (\<lambda>i. (0, 0)) \<lparr>props_dungeons = DUNGEONS, props_selectedDungeon = None\<rparr>)
   = [Some (DUNGEONS ! 0)]"
proof -
  let ?props = "\<lparr>props_dungeons = DUNGEONS, props_selectedDungeon = None\<rparr>"
  let ?s = "mountGlobe (\<lambda>r p. p) (\<lambda>i. (0, 0)) ?props"
  have n: "\<not> isDragging (mouseRef ?s)"
    by (simp add: mountGlobe_fields initialScene_def)
  have len: "length (props_dungeons ?props) = 5"
    by (simp add: DUNGEONS_def)
  have p4: "position (dungeonMarkers ?s ! 4) = position (createMarker 4 (DUNGEONS ! 4))"
    and p0: "position (dungeonMarkers ?s ! 0) = position (createMarker 0 (DUNGEONS ! 0))"
    and d0: "dungeon (dungeonMarkers ?s ! 0) = DUNGEONS ! 0"
    using len by (simp_all add: nth_mountGlobe)
  have g: "\<not> passesVisibilityTest (\<lambda>r p. p) ?s \<lparr>distance = 6, object = GlobeMesh\<rparr>"
    by (simp only: passesVisibilityTest_globe) simp
  have h: "\<not> passesVisibilityTest (\<lambda>r p. p) ?s
      \<lparr>distance = 13, object = MarkerMesh (dungeonMarkers ?s ! 4)\<rparr>"
    unfolding passesVisibilityTest_marker mountGlobe_fields p4 by (rule demon_hidden)
  have v: "passesVisibilityTest (\<lambda>r p. p) ?s
      \<lparr>distance = 14, object = MarkerMesh (dungeonMarkers ?s ! 0)\<rparr>"
    unfolding passesVisibilityTest_marker mountGlobe_fields p0 by (rule goblin_visible)
  show ?thesis
    using handleClick_first_visible_marker [OF n, THEN conjunct1]
    by (simp add: g h v d0)
qed

section \<open>The animation pass\<close>

text \<open>
  Claim C2. In every run of the frame callback and for every marker, with \<open>P\<close> the world
  position of the marker under the stored rotation: when the front-face score of \<open>P\<close>
  exceeds 0.3, the opacity of the marker becomes 1 and its emissive intensity
  0.4 + sin (now * 0.001 + index) * 0.3, \<open>now\<close> the wall-clock reading of that iteration;
  when the score is at most 0.3, the opacity becomes 0.15 and the intensity 0.1.
\<close>

theorem animate_visibility_styling:
  assumes "i < length (dungeonMarkers s)"
  shows "(frontFaceScore (Vector3 0 0 0) (W (rotationRef s) (position (dungeonMarkers s ! i)))
            (camera_position s) > 0.3 \<longrightarrow>
            opacity (dungeonMarkers (animate W clock s) ! i) = 1 \<and>
            emissiveIntensity (dungeonMarkers (animate W clock s) ! i)
              = 0.4 + sin (fst (clock i) * 0.001 + real i) * 0.3) \<and>
         (frontFaceScore (Vector3 0 0 0) (W (rotationRef s) (position (dungeonMarkers s ! i)))
            (camera_position s) \<le> 0.3 \<longrightarrow>
            opacity (dungeonMarkers (animate W clock s) ! i) = 0.15 \<and>
            emissiveIntensity (dungeonMarkers (animate W clock s) ! i) = 0.1)"
  using assms
  by (simp add: nth_animate animateMarker_visible dotProduct_frontFaceScore)

text \<open>
  The scene mounted with the dungeons of the table, the clock at 0: the first marker
  (score above 0.3, index 0) gets opacity 1 and intensity 0.4, the fifth (score below 0)
  gets opacity 0.15 and intensity 0.1.
\<close>

theorem animate_visibility_styling_witness:
  "opacity (dungeonMarkers (animate (\<lambda>r p. p) (\<lambda>i. (0, 0))
      (mountGlobe (\<lambda>r p. p) (\<lambda>i. (0, 0)) \<lparr>props_dungeons = DUNGEONS, props_selectedDungeon = None\<rparr>)) ! 0) = 1 \<and>
   emissiveIntensity (dungeonMarkers (animate (\<lambda>r p. p) (\<lambda>i. (0, 0))
      (mountGlobe (\<lambda>r p. p) (\<lambda>i. (0, 0)) \<lparr>props_dungeons = DUNGEONS, props_selectedDungeon = None\<rparr>)) ! 0) = 0.4 \<and>
   opacity (dungeonMarkers (animate (\<lambda>r p. p) (\<lambda>i. (0, 0))
      (mountGlobe (\<lambda>r p. p) (\<lambda>i. (0, 0)) \<lparr>props_dungeons = DUNGEONS, props_selectedDungeon = None\<rparr>)) ! 4) = 0.15 \<and>
   emissiveIntensity (dungeonMarkers (animate (\<lambda>r p. p) (\<lambda>i. (0, 0))
      (mountGlobe (\<lambda>r p. p) (\<lambda>i. (0, 0)) \<lparr>props_dungeons = DUNGEONS, props_selectedDungeon = None\<rparr>)) ! 4) = 0.1"
proof -
  let ?props = "\<lparr>props_dungeons = DUNGEONS, props_selectedDungeon = None\<rparr>"
  let ?s = "mountGlobe (\<lambda>r p. p) (\<lambda>i. (0, 0)) ?props"
  have len: "length (props_dungeons ?props) = 5"
    by (simp add: DUNGEONS_def)
  then have i0: "0 < length (dungeonMarkers ?s)" and i4: "4 < length (dungeonMarkers ?s)"
    by (simp_all add: length_mountGlobe)
  have p4: "position (dungeonMarkers ?s ! 4) = position (createMarker 4 (DUNGEONS ! 4))"
    and p0: "position (dungeonMarkers ?s ! 0) = position (createMarker 0 (DUNGEONS ! 0))"
    using len by (simp_all add: nth_mountGlobe)
  have v0: "frontFaceScore (Vector3 0 0 0) (position (createMarker 0 (DUNGEONS ! 0))) (Vector3 0 0 10) > 0.3"
    using goblin_visible by (simp add: dotProduct_frontFaceScore)
  have v4: "frontFaceScore (Vector3 0 0 0) (position (createMarker 4 (DUNGEONS ! 4))) (Vector3 0 0 10) \<le> 0.3"
    using demon_hidden by (simp add: dotProduct_frontFaceScore)
  have q0: "frontFaceScore (Vector3 0 0 0)
      ((\<lambda>r p. p) (rotationRef ?s) (position (dungeonMarkers ?s ! 0))) (camera_position ?s) > 0.3"
    using v0 by (simp only: p0 mountGlobe_fields)
  have q4: "frontFaceScore (Vector3 0 0 0)
      ((\<lambda>r p. p) (rotationRef ?s) (position (dungeonMarkers ?s ! 4))) (camera_position ?s) \<le> 0.3"
    using v4 by (simp only: p4 mountGlobe_fields)
  from animate_visibility_styling [OF i0, of "\<lambda>r p. p" "\<lambda>i. (0, 0)", THEN conjunct1, rule_format, OF q0]
  have "opacity (dungeonMarkers (animate (\<lambda>r p. p) (\<lambda>i. (0, 0)) ?s) ! 0) = 1 \<and>
    emissiveIntensity (dungeonMarkers (animate (\<lambda>r p. p) (\<lambda>i. (0, 0)) ?s) ! 0) = 0.4"
    by simp
  moreover
  from animate_visibility_styling [OF i4, of "\<lambda>r p. p" "\<lambda>i. (0, 0)", THEN conjunct2, rule_format, OF q4]
  have "opacity (dungeonMarkers (animate (\<lambda>r p. p) (\<lambda>i. (0, 0)) ?s) ! 4) = 0.15 \<and>
    emissiveIntensity (dungeonMarkers (animate (\<lambda>r p. p) (\<lambda>i. (0, 0)) ?s) ! 4) = 0.1"
    by simp
  ultimately show ?thesis
    by simp
qed

text \<open>
  Claim C3 does not hold of the program. A render of \<^verbatim>\<open>Globe\<close> with new props leaves the
  scene as it is, because the dependency list of the effect is empty: the styling of the
  markers in the next frame is the same whatever selection the render brought; and in
  every later frame the selection that \<^verbatim>\<open>animate\<close> reads is the one of the props the
  component was mounted with, not the one of the latest render. The comment at the dependency list asks
  for a ref to read the selection; the program has none.
\<close>

theorem selection_captured_at_mount:
  "renderGlobe W clock prevProps props s = s \<and>
   dungeonMarkers (frame W clock' (renderGlobe W clock prevProps props s))
     = dungeonMarkers (frame W clock' s) \<and>
   closure_selectedDungeon
     (frames W clocks (renderGlobe W clock prevProps props (mountGlobe W clock0 props0)))
     = props_selectedDungeon props0"
  by (simp add: renderGlobe_def effectDeps_def frames_fields mountGlobe_fields)

text \<open>
  Claim C8 does not hold of the program, for the reason given at claim C3. The globe is
  mounted with no selection, as \<^verbatim>\<open>IdleDungeonGame\<close> mounts it; the first dungeon of the
  table is then selected and the globe rendered with it. In the next frame the marker of
  that dungeon faces the camera (opacity 1), and its scale is 1, not the pulse
  1.5 + sin (now * 0.005) * 0.2.
\<close>

theorem selected_marker_keeps_unit_scale:
  "(let s0 = mountGlobe (\<lambda>r p. p) clock0 \<lparr>props_dungeons = DUNGEONS, props_selectedDungeon = None\<rparr>;
        s1 = renderGlobe (\<lambda>r p. p) clock1 \<lparr>props_dungeons = DUNGEONS, props_selectedDungeon = None\<rparr>
               \<lparr>props_dungeons = DUNGEONS, props_selectedDungeon = Some (DUNGEONS ! 0)\<rparr> s0;
        m = dungeonMarkers (frame (\<lambda>r p. p) clock s1) ! 0
    in dungeon m = DUNGEONS ! 0 \<and> opacity m = 1 \<and> scale m = Vector3 1 1 1 \<and>
       scale m \<noteq> setScalar (1.5 + sin (snd (clock 0) * 0.005) * 0.2))"
proof -
  let ?props = "\<lparr>props_dungeons = DUNGEONS, props_selectedDungeon = None\<rparr>"
  let ?s0 = "mountGlobe (\<lambda>r p. p) clock0 ?props"
  let ?s1 = "renderGlobe (\<lambda>r p. p) clock1 ?props
      \<lparr>props_dungeons = DUNGEONS, props_selectedDungeon = Some (DUNGEONS ! 0)\<rparr> ?s0"
  let ?m = "dungeonMarkers (frame (\<lambda>r p. p) clock ?s1) ! 0"
  have s1: "?s1 = ?s0"
    by (simp add: renderGlobe_def effectDeps_def)
  have len: "length (props_dungeons ?props) = 5"
    by (simp add: DUNGEONS_def)
  then have i0: "0 < length (dungeonMarkers ?s0)"
    by (simp add: length_mountGlobe)
  have p0: "position (dungeonMarkers ?s0 ! 0) = position (createMarker 0 (DUNGEONS ! 0))"
    and d0: "dungeon (dungeonMarkers ?s0 ! 0) = DUNGEONS ! 0"
    using len by (simp_all add: nth_mountGlobe)
  have f: "frame (\<lambda>r p. p) clock ?s0 = animate (\<lambda>r p. p) clock (?s0\<lparr>rafCallbacks := 0\<rparr>)"
    by (rule frame_single) (simp add: mountGlobe_fields)
  have m: "?m = animateMarker (\<lambda>r p. p)
      (?s0\<lparr>rafCallbacks := 1, globe_rotation := rotationRef ?s0\<rparr>) (clock 0) 0 (dungeonMarkers ?s0 ! 0)"
    using i0 by (simp add: s1 f nth_animate)
  have 1: "dungeon ?m = DUNGEONS ! 0"
    by (simp add: m animateMarker_keeps d0)
  have "opacity ?m = (if dotProduct (position (createMarker 0 (DUNGEONS ! 0))) (Vector3 0 0 10) > 0.3
      then 1 else 0.15)"
    by (simp only: m animateMarker_visible p0) (simp add: mountGlobe_fields)
  then have 2: "opacity ?m = 1"
    by (simp only: goblin_visible if_True)
  have 3: "scale ?m = Vector3 1 1 1"
    by (simp add: m animateMarker_scale mountGlobe_fields)
  from 1 2 3 show ?thesis
    using pulse_not_unit [of "snd (clock 0) * 0.005"] by (simp add: Let_def)
qed

section \<open>Unmounting\<close>

text \<open>
  Claim C4 holds of the listeners and not of the render loop. After the cleanup of the
  effect no listener is registered and an event of the canvas runs no handler; but the
  request for the next frame that \<^verbatim>\<open>animate\<close> made is still pending, nothing cancels
  it, and in every later frame \<^verbatim>\<open>animate\<close> runs, renders and asks for the next frame
  again.
\<close>

theorem render_loop_survives_unmount:
  "rafCallbacks (frames W clocks (unmountGlobe (mountGlobe W clock props))) = 1 \<and>
   rendered (frames W clocks (unmountGlobe (mountGlobe W clock props))) = 1 + length clocks \<and>
   listeners (unmountGlobe (mountGlobe W clock props)) = {} \<and>
   dispatchEvent W ev (unmountGlobe (mountGlobe W clock props))
     = (unmountGlobe (mountGlobe W clock props), [])"
  by (simp add: frames_fields unmountGlobe_def cleanup_fields mountGlobe_fields dispatchEvent_def)

end
